theory Spec2Isabelle
  imports Main "HOL-Library.Sublist"
begin

section \<open>Python values and strings\<close>

text \<open>
  A Python \<open>str\<close> is modelled as the list of its code points, one \<open>char\<close> per code point.
  For names, emails and messages the model covers the code points 0 to 255; on this
  range \<open>str.strip\<close>, \<open>str.lower\<close>, slicing, \<open>len\<close> and the character classes of
  \<open>NAME_PATTERN\<close> and \<open>EMAIL_PATTERN\<close> are closed and are as defined below. A password
  that is validated is a list of code points with no bound, see \<open>validate_password\<close>.
  A value that arrives from a JSON body may be something other than a string, so the
  operations that test the run-time type of an argument take a \<open>pyval\<close>.
\<close>

datatype pyval = PNone | PBool bool | PInt int | PStr string | PList "pyval list"

text \<open>Truth value testing, as \<open>not x\<close> and \<open>if x\<close> do it.\<close>

fun truthy :: "pyval \<Rightarrow> bool" where
  "truthy PNone = False"
| "truthy (PBool b) = b"
| "truthy (PInt i) = (i \<noteq> 0)"
| "truthy (PStr s) = (s \<noteq> [])"
| "truthy (PList l) = (l \<noteq> [])"

fun isinstance_str :: "pyval \<Rightarrow> bool" where
  "isinstance_str (PStr s) = True"
| "isinstance_str v = False"

text \<open>
  \<open>str.isspace\<close> on one code point below 256: TAB to CR, FS to US, space, NEL and
  NBSP. \<open>str.strip()\<close> and the class \<open>\s\<close> of \<open>re\<close> use the same set.
\<close>

definition isspace :: "char \<Rightarrow> bool" where
  "isspace c = (of_char c \<in> {9, 10, 11, 12, 13, 28, 29, 30, 31, 32, 133, 160 :: nat})"

definition strip :: "string \<Rightarrow> string" where
  "strip s = rev (dropWhile isspace (rev (dropWhile isspace s)))"

text \<open>
  \<open>str.lower\<close> on one code point below 256: A to Z and the capital letters of the
  Latin-1 block (0xC0 to 0xDE, the multiplication sign 0xD7 apart) move up by 32.
\<close>

definition lower_char :: "char \<Rightarrow> char" where
  "lower_char c =
     (let n = (of_char c :: nat)
      in if (65 \<le> n \<and> n \<le> 90) \<or> (192 \<le> n \<and> n \<le> 222 \<and> n \<noteq> 215)
         then char_of (n + 32) else c)"

definition lower :: "string \<Rightarrow> string" where
  "lower s = map lower_char s"

text \<open>
  The character classes of \<open>NAME_PATTERN\<close> and \<open>EMAIL_PATTERN\<close> in \<open>utils.py\<close>.
\<close>

definition is_AZ :: "char \<Rightarrow> bool" where
  "is_AZ c = (65 \<le> (of_char c :: nat) \<and> (of_char c :: nat) \<le> 90)"

definition is_az :: "char \<Rightarrow> bool" where
  "is_az c = (97 \<le> (of_char c :: nat) \<and> (of_char c :: nat) \<le> 122)"

definition is_09 :: "char \<Rightarrow> bool" where
  "is_09 c = (48 \<le> (of_char c :: nat) \<and> (of_char c :: nat) \<le> 57)"

definition name_char :: "char \<Rightarrow> bool" where
  "name_char c = (is_az c \<or> is_AZ c \<or> isspace c \<or> c = CHR ''-'' \<or> c = CHR 0x27)"

definition local_char :: "char \<Rightarrow> bool" where
  "local_char c = (is_az c \<or> is_AZ c \<or> is_09 c \<or> c \<in> set ''._%+-'')"

definition domain_char :: "char \<Rightarrow> bool" where
  "domain_char c = (is_az c \<or> is_AZ c \<or> is_09 c \<or> c \<in> set ''.-'')"

definition alpha_char :: "char \<Rightarrow> bool" where
  "alpha_char c = (is_az c \<or> is_AZ c)"

text \<open>
  In a pattern \<open>^...$\<close> used with \<open>match\<close>, the \<open>$\<close> matches at the end of the string and
  also just before a newline that ends the string: the body of the pattern has to match
  either the whole string or the string without its final newline.
\<close>

definition anchored :: "(string \<Rightarrow> bool) \<Rightarrow> string \<Rightarrow> bool" where
  "anchored body s =
     (body s \<or> (s \<noteq> [] \<and> last s = CHR 0x0A \<and> body (butlast s)))"

text \<open>\<open>NAME_PATTERN\<close>: between 2 and 50 characters of the name class.\<close>

definition name_body :: "string \<Rightarrow> bool" where
  "name_body s = (2 \<le> length s \<and> length s \<le> 50 \<and> list_all name_char s)"

definition NAME_PATTERN_match :: "string \<Rightarrow> bool" where
  "NAME_PATTERN_match s = anchored name_body s"

text \<open>
  \<open>EMAIL_PATTERN\<close>: a non-empty local part, an \<open>@\<close> at position \<open>i\<close>, a non-empty
  domain part, a dot at position \<open>j\<close>, and at least two letters after it.
\<close>

definition email_split :: "string \<Rightarrow> nat \<Rightarrow> nat \<Rightarrow> bool" where
  "email_split s i j =
     (i < j \<and> s ! i = CHR ''@'' \<and> s ! j = CHR ''.'' \<and>
      take i s \<noteq> [] \<and> list_all local_char (take i s) \<and>
      take (j - Suc i) (drop (Suc i) s) \<noteq> [] \<and>
      list_all domain_char (take (j - Suc i) (drop (Suc i) s)) \<and>
      2 \<le> length (drop (Suc j) s) \<and> list_all alpha_char (drop (Suc j) s))"

definition email_body :: "string \<Rightarrow> bool" where
  "email_body s =
     list_ex (\<lambda>i. list_ex (\<lambda>j. email_split s i j) [0..<length s]) [0..<length s]"

definition EMAIL_PATTERN_match :: "string \<Rightarrow> bool" where
  "EMAIL_PATTERN_match s = anchored email_body s"

text \<open>The operator \<open>in\<close> on two strings: the first occurs in the second.\<close>

fun str_contains :: "string \<Rightarrow> string \<Rightarrow> bool" where
  "str_contains sub [] = (sub = [])"
| "str_contains sub (c # s) = (prefix sub (c # s) \<or> str_contains sub s)"

text \<open>\<open>str(n)\<close> of an integer, as the f-strings of the source format it.\<close>

definition digit_char :: "nat \<Rightarrow> char" where
  "digit_char n = char_of (48 + n)"

function str_nat :: "nat \<Rightarrow> string" where
  "str_nat n = (if n < 10 then [digit_char n] else str_nat (n div 10) @ [digit_char (n mod 10)])"
  by pat_completeness auto
termination
  by (relation "measure id") auto

declare str_nat.simps [simp del]

definition str_int :: "int \<Rightarrow> string" where
  "str_int i = (if i < 0 then CHR ''-'' # str_nat (nat (- i)) else str_nat (nat i))"

section \<open>Configuration (config.py)\<close>

text \<open>
  \<open>MIN_PASSWORD_LENGTH\<close> is read from the environment, with the default 8. The other
  settings of \<open>Config\<close> are not read by the functions below.
\<close>

record config =
  MIN_PASSWORD_LENGTH :: int

definition default_config :: config where
  "default_config = \<lparr>MIN_PASSWORD_LENGTH = 8\<rparr>"

section \<open>Validation and credentials (utils.py)\<close>

text \<open>
  A password is tested with \<open>\d\<close>, which on a \<open>str\<close> matches every decimal digit of
  Unicode, so a password is the list of its code points with no bound on them, and
  \<open>len\<close> is the length of that list. The decimal digits are the ASCII digits and the
  further code points of category Nd in the Unicode database of the interpreter; the
  database is outside the repository, so that further set is the parameter \<open>nd\<close>.
  The other three classes are written out in the source.
\<close>

definition codepoints :: "string \<Rightarrow> nat list" where
  "codepoints s = map of_char s"

definition re_upper :: "nat \<Rightarrow> bool" where
  "re_upper c = (65 \<le> c \<and> c \<le> 90)"

definition re_lower :: "nat \<Rightarrow> bool" where
  "re_lower c = (97 \<le> c \<and> c \<le> 122)"

definition re_digit :: "(nat \<Rightarrow> bool) \<Rightarrow> nat \<Rightarrow> bool" where
  "re_digit nd c = ((48 \<le> c \<and> c \<le> 57) \<or> nd c)"

definition re_special :: "nat \<Rightarrow> bool" where
  "re_special c = (c \<in> set (codepoints ''!@#$%^&*(),.?\":{}|<>''))"

definition validate_password ::
  "config \<Rightarrow> (nat \<Rightarrow> bool) \<Rightarrow> nat list \<Rightarrow> bool \<times> string option" where
  "validate_password cfg nd password =
     (if password = [] then (False, Some ''Password is required'')
      else if int (length password) < MIN_PASSWORD_LENGTH cfg then
        (False, Some (''Password must be at least '' @ str_int (MIN_PASSWORD_LENGTH cfg)
                       @ '' characters long''))
      else if length password > 128 then
        (False, Some ''Password must be less than 128 characters'')
      else if \<not> list_ex re_upper password then
        (False, Some ''Password must contain at least one uppercase letter'')
      else if \<not> list_ex re_lower password then
        (False, Some ''Password must contain at least one lowercase letter'')
      else if \<not> list_ex (re_digit nd) password then
        (False, Some ''Password must contain at least one number'')
      else if \<not> list_ex re_special password then
        (False, Some ''Password must contain at least one special character'')
      else (True, None))"

definition validate_user_data ::
  "config \<Rightarrow> (nat \<Rightarrow> bool) \<Rightarrow> string \<Rightarrow> string \<Rightarrow> nat list option \<Rightarrow>
     bool \<times> string option" where
  "validate_user_data cfg nd name email password =
     (if name = [] \<or> email = [] then (False, Some ''Name and email are required'')
      else let name = strip name in
        if name = [] then (False, Some ''Name cannot be empty or only whitespace'')
        else if length name < 2 then (False, Some ''Name must be at least 2 characters long'')
        else if length name > 50 then (False, Some ''Name must be less than 50 characters'')
        else if \<not> NAME_PATTERN_match name then (False, Some ''Name contains invalid characters'')
        else let email = lower (strip email) in
          if email = [] then (False, Some ''Email cannot be empty or only whitespace'')
          else if length email > 254 then (False, Some ''Email address is too long'')
          else if \<not> EMAIL_PATTERN_match email then (False, Some ''Invalid email format'')
          else (case password of
                  None \<Rightarrow> (True, None)
                | Some pw \<Rightarrow>
                    (if \<not> fst (validate_password cfg nd pw)
                     then (False, snd (validate_password cfg nd pw))
                     else (True, None))))"

definition sanitize_input :: "pyval \<Rightarrow> nat \<Rightarrow> string" where
  "sanitize_input v max_length =
     (case v of PStr s \<Rightarrow> take max_length (strip s) | _ \<Rightarrow> [])"

text \<open>
  The exceptions that the functions raise, each with the text that \<open>str(e)\<close> gives.
  \<open>IntegrityError\<close> and \<open>OperationalError\<close> are the classes of \<open>sqlite3.Error\<close> that
  appear here; \<open>OverflowError\<close> is what the \<open>sqlite3\<close> module raises when an
  integer parameter does not fit the 64-bit \<open>INTEGER\<close> of the engine, and it is not a
  \<open>sqlite3.Error\<close>; \<open>Exception\<close> stands for an exception of that very class.
\<close>

datatype exn =
    ValueError string
  | UserNotFoundError string
  | UserAlreadyExistsError string
  | IntegrityError string
  | OperationalError string
  | OverflowError string
  | Exception string


fun is_sqlite_Error :: "exn \<Rightarrow> bool" where
  "is_sqlite_Error (IntegrityError m) = True"
| "is_sqlite_Error (OperationalError m) = True"
| "is_sqlite_Error e = False"

fun is_ValueError :: "exn \<Rightarrow> bool" where
  "is_ValueError (ValueError m) = True"
| "is_ValueError e = False"

text \<open>
  \<open>bcrypt\<close> is a library outside the repository. The two functions below take as a
  parameter what the library call returns: the hash (or the exception it raises) for
  \<open>hashpw\<close> with a fresh salt, and the verdict (or the exception) for \<open>checkpw\<close>.
  A password or a hash that is not a string has no \<open>encode\<close>; \<open>verify_password\<close>
  catches that exception like any other and returns \<open>False\<close>.
\<close>

definition hash_password :: "(string \<Rightarrow> exn + string) \<Rightarrow> string \<Rightarrow> exn + string" where
  "hash_password hashpw password =
     (case hashpw password of
        Inr hashed \<Rightarrow> Inr hashed
      | Inl e \<Rightarrow> Inl (ValueError ''Password hashing failed''))"


section \<open>The connection and the users table (db.py)\<close>

text \<open>
  The table \<open>users\<close> as \<open>create_users_table\<close> declares it: an integer primary key with
  \<open>AUTOINCREMENT\<close>, three text columns with their \<open>CHECK\<close> constraints, \<open>UNIQUE\<close> on
  \<open>email\<close>, two timestamps, and the trigger that refreshes \<open>updated_at\<close>. The storage
  engine is outside the repository; what it does with the statements of \<open>models.py\<close> is
  written out below, for an engine that neither runs out of space nor times out on a lock.
\<close>

record user_row =
  r_id :: int
  r_name :: string
  r_email :: string
  r_password :: string
  r_created_at :: string
  r_updated_at :: string

text \<open>A fetched row turned into a \<open>dict\<close>: the selected columns, in their order.\<close>

type_synonym row = "(string \<times> pyval) list"

definition columns_public :: "user_row \<Rightarrow> row" where
  "columns_public r =
     [(''id'', PInt (r_id r)), (''name'', PStr (r_name r)), (''email'', PStr (r_email r)),
      (''created_at'', PStr (r_created_at r)), (''updated_at'', PStr (r_updated_at r))]"

definition columns_star :: "user_row \<Rightarrow> row" where
  "columns_star r =
     [(''id'', PInt (r_id r)), (''name'', PStr (r_name r)), (''email'', PStr (r_email r)),
      (''password'', PStr (r_password r)),
      (''created_at'', PStr (r_created_at r)), (''updated_at'', PStr (r_updated_at r))]"

definition columns_id :: "user_row \<Rightarrow> row" where
  "columns_id r = [(''id'', PInt (r_id r))]"

text \<open>The statements that \<open>models.py\<close> sends, with their bound parameters.\<close>

datatype query =
    SELECT_public_WHERE_id int
  | SELECT_star_WHERE_email string
  | SELECT_public_WHERE_email string
  | SELECT_id_WHERE_id int
  | SELECT_id_WHERE_email_AND_id_neq string int
  | SELECT_public_WHERE_name_LIKE string

datatype sql =
    SELECT query
  | INSERT string string string
  | UPDATE string string int
  | COMMIT
  | ROLLBACK

text \<open>
  The state of the thread's connection: the rows of \<open>users\<close> in insertion order, the
  largest rowid the table ever held (\<open>sqlite_sequence\<close>), the text that
  \<open>CURRENT_TIMESTAMP\<close> evaluates to, and the statements received so far, oldest first.
\<close>

record connection =
  users :: "user_row list"
  sqlite_sequence :: int
  CURRENT_TIMESTAMP :: string
  statements :: "sql list"

text \<open>
  SQL functions of the engine. \<open>length\<close> counts the characters before the first NUL;
  \<open>trim\<close> removes spaces (0x20 only) from both ends; \<open>LIKE\<close> reads both operands up to
  the first NUL, takes \<open>%\<close> for any run of characters and \<open>_\<close> for any one character,
  has no escape character unless one is given, and compares A to Z without case.
\<close>

definition sql_upto_nul :: "string \<Rightarrow> string" where
  "sql_upto_nul s = takeWhile (\<lambda>c. c \<noteq> CHR 0x00) s"

definition sql_length :: "string \<Rightarrow> nat" where
  "sql_length s = length (sql_upto_nul s)"

definition sql_trim :: "string \<Rightarrow> string" where
  "sql_trim s =
     rev (dropWhile (\<lambda>c. c = CHR '' '') (rev (dropWhile (\<lambda>c. c = CHR '' '') s)))"

definition ascii_fold :: "char \<Rightarrow> char" where
  "ascii_fold c = (if is_AZ c then char_of ((of_char c :: nat) + 32) else c)"

fun sql_like_match :: "string \<Rightarrow> string \<Rightarrow> bool" where
  "sql_like_match [] [] = True"
| "sql_like_match [] (c # cs) = False"
| "sql_like_match (p # ps) [] = (p = CHR ''%'' \<and> sql_like_match ps [])"
| "sql_like_match (p # ps) (c # cs) =
     (if p = CHR ''%'' then sql_like_match ps (c # cs) \<or> sql_like_match (p # ps) cs
      else if p = CHR ''_'' \<or> ascii_fold p = ascii_fold c then sql_like_match ps cs
      else False)"

definition sql_like :: "string \<Rightarrow> string \<Rightarrow> bool" where
  "sql_like pat s = sql_like_match (sql_upto_nul pat) (sql_upto_nul s)"

text \<open>The three \<open>CHECK\<close> constraints of the table.\<close>

definition check_name :: "string \<Rightarrow> bool" where
  "check_name n = (sql_length (sql_trim n) > 0)"

definition check_email :: "string \<Rightarrow> bool" where
  "check_email e = (sql_length (sql_trim e) > 0)"

definition check_password :: "string \<Rightarrow> bool" where
  "check_password p = (sql_length p \<ge> 60)"

text \<open>
  What the declaration of the table guarantees of its rows at any time: the primary key
  and the \<open>UNIQUE\<close> column have no duplicates, and every row passes the three
  \<open>CHECK\<close> constraints.
\<close>

definition table_constraints :: "user_row list \<Rightarrow> bool" where
  "table_constraints us =
     (distinct (map r_id us) \<and> distinct (map r_email us) \<and>
      list_all (\<lambda>r. check_name (r_name r) \<and> check_email (r_email r) \<and>
                     check_password (r_password r)) us)"

text \<open>\<open>ORDER BY name\<close>: insertion into a list kept in ascending order of the key.\<close>

fun str_le :: "string \<Rightarrow> string \<Rightarrow> bool" where
  "str_le [] t = True"
| "str_le (c # s) [] = False"
| "str_le (c # s) (d # t) =
     ((of_char c :: nat) < of_char d \<or> (c = d \<and> str_le s t))"

fun insert_by_name :: "user_row \<Rightarrow> user_row list \<Rightarrow> user_row list" where
  "insert_by_name r [] = [r]"
| "insert_by_name r (x # xs) =
     (if str_le (r_name r) (r_name x) then r # x # xs else x # insert_by_name r xs)"

definition order_by_name :: "user_row list \<Rightarrow> user_row list" where
  "order_by_name rs = foldr insert_by_name rs []"

fun run_query :: "query \<Rightarrow> user_row list \<Rightarrow> row list" where
  "run_query (SELECT_public_WHERE_id i) us =
     map columns_public (filter (\<lambda>r. r_id r = i) us)"
| "run_query (SELECT_star_WHERE_email e) us =
     map columns_star (filter (\<lambda>r. r_email r = e) us)"
| "run_query (SELECT_public_WHERE_email e) us =
     map columns_public (filter (\<lambda>r. r_email r = e) us)"
| "run_query (SELECT_id_WHERE_id i) us =
     map columns_id (filter (\<lambda>r. r_id r = i) us)"
| "run_query (SELECT_id_WHERE_email_AND_id_neq e i) us =
     map columns_id (filter (\<lambda>r. r_email r = e \<and> r_id r \<noteq> i) us)"
| "run_query (SELECT_public_WHERE_name_LIKE p) us =
     map columns_public (order_by_name (filter (\<lambda>r. sql_like p (r_name r)) us))"

definition received :: "sql \<Rightarrow> connection \<Rightarrow> connection" where
  "received s conn = conn\<lparr>statements := statements conn @ [s]\<rparr>"

text \<open>
  The \<open>sqlite3\<close> module binds the parameters before the engine runs the statement. An
  integer outside the signed 64-bit range cannot be bound: \<open>execute\<close> raises
  \<open>OverflowError\<close> and the engine receives nothing.
\<close>

definition fits_int64 :: "int \<Rightarrow> bool" where
  "fits_int64 i = (- (2 ^ 63) \<le> i \<and> i \<le> 2 ^ 63 - 1)"

definition int_too_large :: exn where
  "int_too_large = OverflowError ''Python int too large to convert to SQLite INTEGER''"

fun bound_ints :: "query \<Rightarrow> int list" where
  "bound_ints (SELECT_public_WHERE_id i) = [i]"
| "bound_ints (SELECT_star_WHERE_email e) = []"
| "bound_ints (SELECT_public_WHERE_email e) = []"
| "bound_ints (SELECT_id_WHERE_id i) = [i]"
| "bound_ints (SELECT_id_WHERE_email_AND_id_neq e i) = [i]"
| "bound_ints (SELECT_public_WHERE_name_LIKE p) = []"

definition execute_query :: "query \<Rightarrow> connection \<Rightarrow> (exn + row list) \<times> connection" where
  "execute_query q conn =
     (if \<not> list_all fits_int64 (bound_ints q) then (Inl int_too_large, conn)
      else (Inr (run_query q (users conn)), received (SELECT q) conn))"

definition fetchone :: "row list \<Rightarrow> row option" where
  "fetchone rs = (case rs of [] \<Rightarrow> None | r # _ \<Rightarrow> Some r)"

text \<open>
  \<open>AUTOINCREMENT\<close>: the new rowid is one more than the largest rowid that the table
  holds or ever held.
\<close>

definition next_rowid :: "connection \<Rightarrow> int" where
  "next_rowid conn = max (sqlite_sequence conn) (fold max (map r_id (users conn)) 0) + 1"

text \<open>
  \<open>INSERT INTO users (name, email, password) VALUES (?, ?, ?)\<close>: the \<open>CHECK\<close>
  constraints in the order of their columns, then the \<open>UNIQUE\<close> index; a constraint that
  fails raises \<open>IntegrityError\<close> with the engine's message and leaves the table as it was.
  The result is \<open>cursor.lastrowid\<close>.
\<close>

definition execute_insert ::
  "string \<Rightarrow> string \<Rightarrow> string \<Rightarrow> connection \<Rightarrow> (exn + int) \<times> connection" where
  "execute_insert n e p conn =
     (let c1 = received (INSERT n e p) conn in
      if \<not> check_name n then
        (Inl (IntegrityError ''CHECK constraint failed: length(trim(name)) > 0''), c1)
      else if \<not> check_email e then
        (Inl (IntegrityError ''CHECK constraint failed: length(trim(email)) > 0''), c1)
      else if \<not> check_password p then
        (Inl (IntegrityError ''CHECK constraint failed: length(password) >= 60''), c1)
      else if list_ex (\<lambda>r. r_email r = e) (users conn) then
        (Inl (IntegrityError ''UNIQUE constraint failed: users.email''), c1)
      else
        (Inr (next_rowid conn),
         c1\<lparr>users := users conn @
                 [\<lparr>r_id = next_rowid conn, r_name = n, r_email = e, r_password = p,
                   r_created_at = CURRENT_TIMESTAMP conn,
                   r_updated_at = CURRENT_TIMESTAMP conn\<rparr>],
             sqlite_sequence := next_rowid conn\<rparr>))"

text \<open>
  \<open>UPDATE users SET name = ?, email = ? WHERE id = ?\<close>: when a row has that id, the
  \<open>CHECK\<close> constraints of the two columns written, then the \<open>UNIQUE\<close> index against
  the other rows; the trigger \<open>update_users_timestamp\<close> then sets \<open>updated_at\<close>.
\<close>

definition execute_update ::
  "string \<Rightarrow> string \<Rightarrow> int \<Rightarrow> connection \<Rightarrow> (exn + unit) \<times> connection" where
  "execute_update n e i conn =
     (let c1 = received (UPDATE n e i) conn in
      if \<not> fits_int64 i then (Inl int_too_large, conn)
      else if \<not> list_ex (\<lambda>r. r_id r = i) (users conn) then (Inr (), c1)
      else if \<not> check_name n then
        (Inl (IntegrityError ''CHECK constraint failed: length(trim(name)) > 0''), c1)
      else if \<not> check_email e then
        (Inl (IntegrityError ''CHECK constraint failed: length(trim(email)) > 0''), c1)
      else if list_ex (\<lambda>r. r_id r \<noteq> i \<and> r_email r = e) (users conn) then
        (Inl (IntegrityError ''UNIQUE constraint failed: users.email''), c1)
      else
        (Inr (),
         c1\<lparr>users :=
               map (\<lambda>r. if r_id r = i
                         then r\<lparr>r_name := n, r_email := e,
                                r_updated_at := CURRENT_TIMESTAMP conn\<rparr>
                         else r) (users conn)\<rparr>))"

text \<open>
  \<open>get_db_transaction\<close>: the body runs on the thread's connection; a normal end commits,
  an exception rolls the table back to what it was when the block was entered and is
  raised again. The connection stays open in both cases.
\<close>

definition commit :: "connection \<Rightarrow> connection" where
  "commit conn = received COMMIT conn"

definition rollback :: "connection \<Rightarrow> connection \<Rightarrow> connection" where
  "rollback entered conn =
     received ROLLBACK (conn\<lparr>users := users entered, sqlite_sequence := sqlite_sequence entered\<rparr>)"

definition get_db_transaction ::
  "(connection \<Rightarrow> (exn + 'a) \<times> connection) \<Rightarrow> connection \<Rightarrow> (exn + 'a) \<times> connection" where
  "get_db_transaction body conn =
     (case body conn of
        (Inr v, c) \<Rightarrow> (Inr v, commit c)
      | (Inl e, c) \<Rightarrow> (Inl e, rollback conn c))"

section \<open>The user repository (models.py)\<close>

text \<open>
  Each function returns what the Python function returns (\<open>Inr\<close>) or the exception it
  raises (\<open>Inl\<close>), together with the connection afterwards. The parameters have the
  types of the annotations; \<open>get_user_by_email\<close> and \<open>search_users_by_name\<close> test the
  run-time type of their argument and take a \<open>pyval\<close>. An id is a Python \<open>int\<close>, of
  any size; it meets the 64-bit range of the engine only when it is bound to a statement.
\<close>

text \<open>The clause \<open>except Error as e: raise Exception(msg)\<close> that ends each function.\<close>

definition except_Error :: "string \<Rightarrow> exn \<Rightarrow> exn" where
  "except_Error msg e = (if is_sqlite_Error e then Exception msg else e)"

definition raised :: "(exn \<Rightarrow> exn) \<Rightarrow> (exn + 'a) \<times> connection \<Rightarrow> (exn + 'a) \<times> connection" where
  "raised handler res = (case res of (Inl e, c) \<Rightarrow> (Inl (handler e), c) | (Inr v, c) \<Rightarrow> (Inr v, c))"

definition get_user_by_id :: "connection \<Rightarrow> int \<Rightarrow> (exn + row option) \<times> connection" where
  "get_user_by_id conn user_id =
     (if user_id \<le> 0 then (Inl (ValueError ''User ID must be a positive integer''), conn)
      else raised (except_Error ''Failed to retrieve user'')
             (get_db_transaction
                (\<lambda>c. case execute_query (SELECT_public_WHERE_id user_id) c of
                        (Inl e, c1) \<Rightarrow> (Inl e, c1)
                      | (Inr rs, c1) \<Rightarrow> (Inr (fetchone rs), c1)) conn))"

definition get_user_by_email ::
  "connection \<Rightarrow> pyval \<Rightarrow> bool \<Rightarrow> (exn + row option) \<times> connection" where
  "get_user_by_email conn email include_password =
     (if \<not> truthy email \<or> \<not> isinstance_str email then
        (Inl (ValueError ''Email must be a non-empty string''), conn)
      else
        (case email of
           PStr e \<Rightarrow>
             (let email1 = sanitize_input (PStr (lower e)) 255 in
              raised (except_Error ''Failed to retrieve user'')
                (get_db_transaction
                   (\<lambda>c. case execute_query
                                 (if include_password then SELECT_star_WHERE_email email1
                                  else SELECT_public_WHERE_email email1) c of
                           (Inl e, c1) \<Rightarrow> (Inl e, c1)
                         | (Inr rs, c1) \<Rightarrow> (Inr (fetchone rs), c1)) conn))
         | _ \<Rightarrow> (Inl (ValueError ''Email must be a non-empty string''), conn)))"

text \<open>The two \<open>except\<close> clauses of \<open>create_user\<close>, \<open>IntegrityError\<close> first.\<close>

definition create_user_except :: "exn \<Rightarrow> exn" where
  "create_user_except e =
     (case e of
        IntegrityError m \<Rightarrow>
          (if str_contains ''email'' (lower m) then UserAlreadyExistsError ''Email already exists''
           else Exception ''Failed to create user due to data constraint'')
      | _ \<Rightarrow> except_Error ''Failed to create user'' e)"

definition create_user ::
  "connection \<Rightarrow> string \<Rightarrow> string \<Rightarrow> string \<Rightarrow> (exn + int) \<times> connection" where
  "create_user conn name email password_hash =
     (if name = [] \<or> email = [] \<or> password_hash = [] then
        (Inl (ValueError ''Name, email, and password_hash are required''), conn)
      else
        (let name1 = sanitize_input (PStr name) 50;
             email1 = sanitize_input (PStr (lower email)) 254
         in raised create_user_except
              (get_db_transaction (execute_insert name1 email1 password_hash) conn)))"

text \<open>The block of \<open>update_user\<close> under \<open>with get_db_transaction() as conn\<close>.\<close>

definition update_user_block ::
  "int \<Rightarrow> string \<Rightarrow> string \<Rightarrow> connection \<Rightarrow> (exn + unit) \<times> connection" where
  "update_user_block user_id name1 email1 c =
     (case execute_query (SELECT_id_WHERE_id user_id) c of
        (Inl e, c1) \<Rightarrow> (Inl e, c1)
      | (Inr existing_user, c1) \<Rightarrow>
          (case fetchone existing_user of
             None \<Rightarrow>
               (Inl (UserNotFoundError (''User with ID '' @ str_int user_id @ '' not found'')), c1)
           | Some _ \<Rightarrow>
               (case execute_query (SELECT_id_WHERE_email_AND_id_neq email1 user_id) c1 of
                  (Inl e, c2) \<Rightarrow> (Inl e, c2)
                | (Inr email_check, c2) \<Rightarrow>
                    (case fetchone email_check of
                       Some _ \<Rightarrow>
                         (Inl (UserAlreadyExistsError ''Email already exists for another user''), c2)
                     | None \<Rightarrow> execute_update name1 email1 user_id c2))))"

definition update_user ::
  "connection \<Rightarrow> int \<Rightarrow> string \<Rightarrow> string \<Rightarrow> (exn + unit) \<times> connection" where
  "update_user conn user_id name email =
     (if user_id \<le> 0 then (Inl (ValueError ''User ID must be a positive integer''), conn)
      else if name = [] \<or> email = [] then
        (Inl (ValueError ''Name and email are required''), conn)
      else
        (let name1 = sanitize_input (PStr name) 50;
             email1 = sanitize_input (PStr (lower email)) 254
         in raised (except_Error ''Failed to update user'')
              (get_db_transaction (update_user_block user_id name1 email1) conn)))"

definition search_users_by_name :: "connection \<Rightarrow> pyval \<Rightarrow> (exn + row list) \<times> connection" where
  "search_users_by_name conn name =
     (if \<not> truthy name \<or> \<not> isinstance_str name then
        (Inl (ValueError ''Name must be a non-empty string''), conn)
      else
        (let name1 = sanitize_input name 50;
             search_pattern = ''%'' @ name1 @ ''%''
         in raised (except_Error ''Failed to search users'')
              (get_db_transaction
                 (\<lambda>c. case execute_query (SELECT_public_WHERE_name_LIKE search_pattern) c of
                         (Inl e, c1) \<Rightarrow> (Inl e, c1)
                       | (Inr rs, c1) \<Rightarrow> (Inr rs, c1)) conn)))"

section \<open>The login route (routes/user_routes.py)\<close>







section \<open>The validation rules as lists\<close>

text \<open>
  A rule is a condition that has to hold and the message given when it does not;
  \<open>first_failing\<close> goes through a list of rules in order.
\<close>

fun first_failing :: "(bool \<times> string) list \<Rightarrow> bool \<times> string option" where
  "first_failing [] = (True, None)"
| "first_failing ((holds, message) # rules) =
     (if holds then first_failing rules else (False, Some message))"

text \<open>
  The rules of the specification, section 4.1. Presence: name and email are not missing
  or empty, and neither is whitespace only. Name shape: 2 to 50 characters of the name
  pattern after trimming. Email shape: at most 254 characters of the email pattern after
  trimming and lowercasing. Password policy: only for a password that is supplied.
\<close>

definition required_rule :: "string \<Rightarrow> string \<Rightarrow> (bool \<times> string) list" where
  "required_rule name email = [(name \<noteq> [] \<and> email \<noteq> [], ''Name and email are required'')]"

definition name_blank_rule :: "string \<Rightarrow> (bool \<times> string) list" where
  "name_blank_rule name = [(strip name \<noteq> [], ''Name cannot be empty or only whitespace'')]"

definition email_blank_rule :: "string \<Rightarrow> (bool \<times> string) list" where
  "email_blank_rule email =
     [(lower (strip email) \<noteq> [], ''Email cannot be empty or only whitespace'')]"

definition presence_rules :: "string \<Rightarrow> string \<Rightarrow> (bool \<times> string) list" where
  "presence_rules name email =
     required_rule name email @ name_blank_rule name @ email_blank_rule email"

definition name_shape_rules :: "string \<Rightarrow> (bool \<times> string) list" where
  "name_shape_rules name =
     [(2 \<le> length (strip name), ''Name must be at least 2 characters long''),
      (length (strip name) \<le> 50, ''Name must be less than 50 characters''),
      (NAME_PATTERN_match (strip name), ''Name contains invalid characters'')]"

definition email_shape_rules :: "string \<Rightarrow> (bool \<times> string) list" where
  "email_shape_rules email =
     [(length (lower (strip email)) \<le> 254, ''Email address is too long''),
      (EMAIL_PATTERN_match (lower (strip email)), ''Invalid email format'')]"

definition password_rules ::
  "config \<Rightarrow> (nat \<Rightarrow> bool) \<Rightarrow> nat list option \<Rightarrow> (bool \<times> string) list" where
  "password_rules cfg nd password =
     (case password of
        None \<Rightarrow> []
      | Some pw \<Rightarrow>
          [(pw \<noteq> [], ''Password is required''),
           (MIN_PASSWORD_LENGTH cfg \<le> int (length pw),
            ''Password must be at least '' @ str_int (MIN_PASSWORD_LENGTH cfg)
              @ '' characters long''),
           (length pw \<le> 128, ''Password must be less than 128 characters''),
           (list_ex re_upper pw, ''Password must contain at least one uppercase letter''),
           (list_ex re_lower pw, ''Password must contain at least one lowercase letter''),
           (list_ex (re_digit nd) pw, ''Password must contain at least one number''),
           (list_ex re_special pw, ''Password must contain at least one special character'')])"

text \<open>The order of the specification: presence, name shape, email shape, password policy.\<close>

definition specified_order ::
  "config \<Rightarrow> (nat \<Rightarrow> bool) \<Rightarrow> string \<Rightarrow> string \<Rightarrow> nat list option \<Rightarrow> (bool \<times> string) list" where
  "specified_order cfg nd name email password =
     presence_rules name email @ name_shape_rules name @ email_shape_rules email
       @ password_rules cfg nd password"

text \<open>
  The same rules with the whitespace-only test of each field moved next to the shape
  rules of that field: both fields required, then the name, then the email, then the
  password.
\<close>

definition field_by_field_order ::
  "config \<Rightarrow> (nat \<Rightarrow> bool) \<Rightarrow> string \<Rightarrow> string \<Rightarrow> nat list option \<Rightarrow> (bool \<times> string) list" where
  "field_by_field_order cfg nd name email password =
     required_rule name email @ name_blank_rule name @ name_shape_rules name
       @ email_blank_rule email @ email_shape_rules email @ password_rules cfg nd password"

section \<open>Concrete inputs\<close>

text \<open>The connection right after \<open>create_users_table\<close>, with no user yet.\<close>

definition fresh_connection :: connection where
  "fresh_connection =
     \<lparr>users = [], sqlite_sequence = 0, CURRENT_TIMESTAMP = ''2024-01-01 00:00:00'',
      statements = []\<rparr>"

text \<open>
  A set of further decimal digits for concrete runs: the Arabic-Indic digits, U+0660 to
  U+0669, which every version of the Unicode database has in category Nd.
\<close>

definition arabic_indic :: "nat \<Rightarrow> bool" where
  "arabic_indic c = (1632 \<le> c \<and> c \<le> 1641)"

text \<open>A \<open>hashpw\<close> that raises, whatever the password.\<close>

definition hashpw_raising :: "string \<Rightarrow> exn + string" where
  "hashpw_raising password = Inl (Exception ''bcrypt backend failure'')"

text \<open>A table with two users, as two calls of \<open>create_user\<close> leave it.\<close>

definition two_users :: connection where
  "two_users =
     \<lparr>users =
        [\<lparr>r_id = 1, r_name = ''Anna Lee'', r_email = ''anna@example.com'',
          r_password = ''$2b$12$'' @ replicate 45 (CHR ''.'') @ ''Abcdef1!'',
          r_created_at = ''2024-01-01 00:00:00'', r_updated_at = ''2024-01-01 00:00:00''\<rparr>,
         \<lparr>r_id = 2, r_name = ''Bob Ray'', r_email = ''bob@example.com'',
          r_password = ''$2b$12$'' @ replicate 45 (CHR ''.'') @ ''Zyxwvu9?'',
          r_created_at = ''2024-01-02 00:00:00'', r_updated_at = ''2024-01-02 00:00:00''\<rparr>],
      sqlite_sequence = 2, CURRENT_TIMESTAMP = ''2024-01-03 00:00:00'', statements = []\<rparr>"


text \<open>An address of 256 characters: 250 capital letters before \<open>@B.com\<close>.\<close>

definition long_email :: string where
  "long_email = replicate 250 (CHR ''A'') @ ''@B.com''"

section \<open>Auxiliary facts\<close>

text \<open>Facts about lists, the engine and the transaction block that the results below share.\<close>

lemma fetchone_map_filter: "fetchone (map f (filter P xs)) = map_option f (find P xs)"
  by (induction xs) (auto simp: fetchone_def)

lemma find_None_iff_all: "find P xs = None \<longleftrightarrow> (\<forall>x\<in>set xs. \<not> P x)"
  by (induction xs) auto

lemma find_snoc_new: "\<forall>x\<in>set xs. \<not> P x \<Longrightarrow> P y \<Longrightarrow> find P (xs @ [y]) = Some y"
  by (induction xs) auto

lemma fold_max_lower: "(a::int) \<le> fold max xs a"
  by (induction xs arbitrary: a) (auto intro: order_trans [OF max.cobounded2])

lemma fold_max_upper: "x \<in> set xs \<Longrightarrow> (x::int) \<le> fold max xs a"
proof (induction xs arbitrary: a)
  case Nil
  then show ?case by simp
next
  case (Cons y ys)
  show ?case
  proof (cases "x = y")
    case True
    have "max y a \<le> fold max ys (max y a)" by (rule fold_max_lower)
    with True show ?thesis by simp
  next
    case False
    with Cons show ?thesis by simp
  qed
qed

lemma next_rowid_fresh: "r \<in> set (users conn) \<Longrightarrow> r_id r < next_rowid conn"
  using fold_max_upper [of "r_id r" "map r_id (users conn)" 0]
  by (simp add: next_rowid_def)


lemma get_user_by_email_str:
  "e \<noteq> [] \<Longrightarrow>
   get_user_by_email conn (PStr e) ip =
     (Inr (fetchone (run_query (if ip then SELECT_star_WHERE_email (take 255 (strip (lower e)))
                                else SELECT_public_WHERE_email (take 255 (strip (lower e))))
                       (users conn))),
      conn\<lparr>statements := statements conn @
         [SELECT (if ip then SELECT_star_WHERE_email (take 255 (strip (lower e)))
                  else SELECT_public_WHERE_email (take 255 (strip (lower e)))), COMMIT]\<rparr>)"
  by (simp add: get_user_by_email_def sanitize_input_def raised_def get_db_transaction_def
      execute_query_def received_def commit_def Let_def)

lemma list_ex_set: "list_ex P xs \<longleftrightarrow> (\<exists>x\<in>set xs. P x)"
  by (simp add: list_ex_iff)

lemma create_user_except_name:
  "create_user_except (IntegrityError ''CHECK constraint failed: length(trim(name)) > 0'') =
     Exception ''Failed to create user due to data constraint''"
  by code_simp

lemma create_user_except_email:
  "create_user_except (IntegrityError ''CHECK constraint failed: length(trim(email)) > 0'') =
     UserAlreadyExistsError ''Email already exists''"
  by code_simp

lemma create_user_except_password:
  "create_user_except (IntegrityError ''CHECK constraint failed: length(password) >= 60'') =
     Exception ''Failed to create user due to data constraint''"
  by code_simp

lemma create_user_except_unique:
  "create_user_except (IntegrityError ''UNIQUE constraint failed: users.email'') =
     UserAlreadyExistsError ''Email already exists''"
  by code_simp

lemma create_user_cases:
  assumes "name \<noteq> []" "email \<noteq> []" "password_hash \<noteq> []"
  shows "create_user conn name email password_hash =
     (let name1 = take 50 (strip name); email1 = take 254 (strip (lower email)) in
      if \<not> check_name name1 then
        (Inl (Exception ''Failed to create user due to data constraint''),
         conn\<lparr>statements := statements conn @ [INSERT name1 email1 password_hash, ROLLBACK]\<rparr>)
      else if \<not> check_email email1 then
        (Inl (UserAlreadyExistsError ''Email already exists''),
         conn\<lparr>statements := statements conn @ [INSERT name1 email1 password_hash, ROLLBACK]\<rparr>)
      else if \<not> check_password password_hash then
        (Inl (Exception ''Failed to create user due to data constraint''),
         conn\<lparr>statements := statements conn @ [INSERT name1 email1 password_hash, ROLLBACK]\<rparr>)
      else if \<exists>r\<in>set (users conn). r_email r = email1 then
        (Inl (UserAlreadyExistsError ''Email already exists''),
         conn\<lparr>statements := statements conn @ [INSERT name1 email1 password_hash, ROLLBACK]\<rparr>)
      else
        (Inr (next_rowid conn),
         conn\<lparr>users := users conn @
                 [\<lparr>r_id = next_rowid conn, r_name = name1, r_email = email1,
                   r_password = password_hash,
                   r_created_at = CURRENT_TIMESTAMP conn,
                   r_updated_at = CURRENT_TIMESTAMP conn\<rparr>],
               sqlite_sequence := next_rowid conn,
               statements := statements conn @ [INSERT name1 email1 password_hash, COMMIT]\<rparr>))"
  using assms
  by (simp add: create_user_def sanitize_input_def raised_def get_db_transaction_def
      execute_insert_def received_def commit_def rollback_def Let_def list_ex_set
      create_user_except_name create_user_except_email create_user_except_password
      create_user_except_unique)


lemma fetchone_filter_None:
  "fetchone (map f (filter P xs)) = None \<longleftrightarrow> (\<forall>x\<in>set xs. \<not> P x)"
  by (simp add: fetchone_map_filter find_None_iff_all)



lemma execute_query_fits:
  "list_all fits_int64 (bound_ints q) \<Longrightarrow>
   execute_query q c = (Inr (run_query q (users c)), received (SELECT q) c)"
  by (simp add: execute_query_def)

lemma update_user_block_overflow:
  "\<not> fits_int64 user_id \<Longrightarrow>
   update_user_block user_id name1 email1 c = (Inl int_too_large, c)"
  by (simp add: update_user_block_def execute_query_def)

lemma update_user_block_not_found:
  assumes "\<forall>r\<in>set (users c). r_id r \<noteq> user_id" and "fits_int64 user_id"
  shows "update_user_block user_id name1 email1 c =
     (Inl (UserNotFoundError (''User with ID '' @ str_int user_id @ '' not found'')),
      received (SELECT (SELECT_id_WHERE_id user_id)) c)"
proof -
  have "fetchone (map columns_id (filter (\<lambda>r. r_id r = user_id) (users c))) = None"
    unfolding fetchone_filter_None using assms by simp
  then show ?thesis
    using assms(2) by (simp add: update_user_block_def execute_query_fits)
qed

lemma update_user_block_found:
  assumes "\<exists>r\<in>set (users c). r_id r = user_id" and "fits_int64 user_id"
  shows "update_user_block user_id name1 email1 c =
     (let c1 = received (SELECT (SELECT_id_WHERE_id user_id)) c;
          c2 = received (SELECT (SELECT_id_WHERE_email_AND_id_neq email1 user_id)) c1
      in if \<exists>r\<in>set (users c). r_email r = email1 \<and> r_id r \<noteq> user_id then
           (Inl (UserAlreadyExistsError ''Email already exists for another user''), c2)
         else execute_update name1 email1 user_id c2)"
proof -
  have "fetchone (map columns_id (filter (\<lambda>r. r_id r = user_id) (users c))) \<noteq> None"
    unfolding fetchone_filter_None using assms(1) by simp
  then obtain x where x: "fetchone (map columns_id (filter (\<lambda>r. r_id r = user_id) (users c))) = Some x"
    by blast
  have u1: "users (received (SELECT (SELECT_id_WHERE_id user_id)) c) = users c"
    by (simp add: received_def)
  show ?thesis
  proof (cases "\<exists>r\<in>set (users c). r_email r = email1 \<and> r_id r \<noteq> user_id")
    case True
    then have "fetchone (map columns_id
        (filter (\<lambda>r. r_email r = email1 \<and> r_id r \<noteq> user_id) (users c))) \<noteq> None"
      unfolding fetchone_filter_None by simp
    then obtain y where "fetchone (map columns_id
        (filter (\<lambda>r. r_email r = email1 \<and> r_id r \<noteq> user_id) (users c))) = Some y"
      by blast
    with x True u1 assms(2) show ?thesis
      by (simp add: update_user_block_def execute_query_fits Let_def)
  next
    case False
    then have "fetchone (map columns_id
        (filter (\<lambda>r. r_email r = email1 \<and> r_id r \<noteq> user_id) (users c))) = None"
      unfolding fetchone_filter_None by simp
    with x False u1 assms(2) show ?thesis
      by (auto simp: update_user_block_def execute_query_fits Let_def)
  qed
qed


lemma execute_update_cases:
  assumes "\<exists>r\<in>set (users c). r_id r = user_id"
    and "\<not> (\<exists>r\<in>set (users c). r_email r = email1 \<and> r_id r \<noteq> user_id)"
    and "fits_int64 user_id"
  shows "execute_update name1 email1 user_id c =
     (if \<not> check_name name1 then
        (Inl (IntegrityError ''CHECK constraint failed: length(trim(name)) > 0''),
         received (UPDATE name1 email1 user_id) c)
      else if \<not> check_email email1 then
        (Inl (IntegrityError ''CHECK constraint failed: length(trim(email)) > 0''),
         received (UPDATE name1 email1 user_id) c)
      else
        (Inr (),
         (received (UPDATE name1 email1 user_id) c)
           \<lparr>users :=
              map (\<lambda>r. if r_id r = user_id
                        then r\<lparr>r_name := name1, r_email := email1,
                               r_updated_at := CURRENT_TIMESTAMP c\<rparr>
                        else r) (users c)\<rparr>))"
proof -
  have a: "list_ex (\<lambda>r. r_id r = user_id) (users c)"
    using assms(1) by (simp add: list_ex_iff)
  have b: "\<not> list_ex (\<lambda>r. r_id r \<noteq> user_id \<and> r_email r = email1) (users c)"
    using assms(2) by (auto simp: list_ex_iff)
  show ?thesis
    by (simp add: execute_update_def Let_def a b assms(3))
qed



lemma update_user_guarded:
  assumes "0 < user_id" "name \<noteq> []" "email \<noteq> []"
  shows "update_user conn user_id name email =
     raised (except_Error ''Failed to update user'')
       (get_db_transaction
          (update_user_block user_id (take 50 (strip name)) (take 254 (strip (lower email))))
          conn)"
  using assms by (simp add: update_user_def sanitize_input_def Let_def)





lemma str_contains_sublist: "str_contains xs ys \<longleftrightarrow> sublist xs ys"
  by (induction ys) (auto simp: sublist_Cons_right)

lemma search_users_by_name_str:
  "s \<noteq> [] \<Longrightarrow>
   search_users_by_name conn (PStr s) =
     (Inr (map columns_public (order_by_name
             (filter (\<lambda>r. sql_like (''%'' @ take 50 (strip s) @ ''%'') (r_name r)) (users conn)))),
      conn\<lparr>statements := statements conn @
         [SELECT (SELECT_public_WHERE_name_LIKE (''%'' @ take 50 (strip s) @ ''%'')), COMMIT]\<rparr>)"
  by (simp add: search_users_by_name_def sanitize_input_def raised_def get_db_transaction_def
      execute_query_def received_def commit_def Let_def)

lemma lower_char_idem: "lower_char (lower_char c) = lower_char c"
  by (auto simp: lower_char_def Let_def)

lemma lower_idem: "lower (lower s) = lower s"
  by (simp add: lower_def lower_char_idem)



lemma strip_Nil: "strip [] = []"
  by (simp add: strip_def)

lemma check_email_nonempty: "check_email e \<Longrightarrow> e \<noteq> []"
  by (auto simp: check_email_def sql_length_def sql_trim_def sql_upto_nul_def)

lemma create_user_Inr:
  assumes "create_user conn name email password_hash = (Inr user_id, conn1)"
  shows "user_id = next_rowid conn \<and>
     users conn1 = users conn @
       [\<lparr>r_id = next_rowid conn, r_name = take 50 (strip name),
         r_email = take 254 (strip (lower email)), r_password = password_hash,
         r_created_at = CURRENT_TIMESTAMP conn, r_updated_at = CURRENT_TIMESTAMP conn\<rparr>] \<and>
     (\<forall>r\<in>set (users conn). r_email r \<noteq> take 254 (strip (lower email))) \<and>
     check_email (take 254 (strip (lower email)))"
proof -
  from assms have ne: "name \<noteq> []" "email \<noteq> []" "password_hash \<noteq> []"
    by (auto simp: create_user_def split: if_splits)
  from assms show ?thesis
    unfolding create_user_cases [OF ne] Let_def
    by (auto split: if_splits)
qed

lemma strip_no_space_ends:
  "s \<noteq> [] \<Longrightarrow> \<not> isspace (hd s) \<Longrightarrow> \<not> isspace (last s) \<Longrightarrow> strip s = s"
proof -
  assume a: "s \<noteq> []" "\<not> isspace (hd s)" "\<not> isspace (last s)"
  then have "dropWhile isspace s = s"
    by (simp add: dropWhile_eq_self_iff)
  moreover from a have "dropWhile isspace (rev s) = rev s"
    by (simp add: dropWhile_eq_self_iff hd_rev)
  ultimately show ?thesis
    by (simp add: strip_def)
qed

lemma lower_append: "lower (xs @ ys) = lower xs @ lower ys"
  by (simp add: lower_def)

lemma lower_replicate: "lower (replicate n c) = replicate n (lower_char c)"
  by (simp add: lower_def)

lemma lower_char_A: "lower_char (CHR ''A'') = CHR ''a''"
  by code_simp

lemma lower_tail: "lower ''@B.com'' = ''@b.com''"
  by code_simp

lemma check_email_hd:
  assumes "e \<noteq> []" and "hd e \<noteq> CHR '' ''" and "hd e \<noteq> CHR 0x00"
  shows "check_email e"
proof -
  from assms(1) obtain h t where e: "e = h # t"
    by (cases e) auto
  with assms(2) have "dropWhile (\<lambda>c. c = CHR '' '') e = e"
    by simp
  moreover have "\<exists>zs. dropWhile (\<lambda>c. c = CHR '' '') (rev t @ [h]) = zs @ [h]"
    using assms(2) e by (auto simp: dropWhile_append)
  ultimately obtain zs where "sql_trim e = h # rev zs"
    using e by (auto simp: sql_trim_def)
  with assms(3) e show ?thesis
    by (simp add: check_email_def sql_length_def sql_upto_nul_def)
qed

lemma lower_long_email: "lower long_email = replicate 250 (CHR ''a'') @ ''@b.com''"
  by (simp add: long_email_def lower_append lower_replicate lower_char_A lower_tail)

lemma lower_lower_long_email: "lower (lower long_email) = replicate 250 (CHR ''a'') @ ''@b.com''"
  unfolding lower_idem by (rule lower_long_email)

lemma strip_lower_long_email:
  "strip (replicate 250 (CHR ''a'') @ ''@b.com'') = replicate 250 (CHR ''a'') @ ''@b.com''"
  by (rule strip_no_space_ends) (simp_all add: isspace_def)

lemma stored_long_email:
  "take 254 (strip (lower long_email)) = replicate 250 (CHR ''a'') @ ''@b.c''"
  by (simp add: lower_long_email strip_lower_long_email)

lemma looked_up_long_email:
  "take 255 (strip (lower (lower long_email))) = replicate 250 (CHR ''a'') @ ''@b.co''"
  by (simp add: lower_lower_long_email strip_lower_long_email)





subsection \<open>The constraints of the table are kept\<close>

text \<open>
  The empty table satisfies \<open>table_constraints\<close>, and \<open>create_user\<close> and
  \<open>update_user\<close> keep it, whatever they return: the property holds of every table
  that these functions build.
\<close>

lemma table_constraints_fresh: "table_constraints (users fresh_connection)"
  by (simp add: fresh_connection_def table_constraints_def)

lemma create_user_constraints:
  assumes "table_constraints (users conn)"
  shows "table_constraints (users (snd (create_user conn name email password_hash)))"
proof (cases "name = [] \<or> email = [] \<or> password_hash = []")
  case True
  with assms show ?thesis
    by (simp add: create_user_def)
next
  case False
  then have ne: "name \<noteq> []" "email \<noteq> []" "password_hash \<noteq> []"
    by simp_all
  have fresh_id: "next_rowid conn \<notin> r_id ` set (users conn)"
    using next_rowid_fresh [of _ conn] by fastforce
  show ?thesis
    unfolding create_user_cases [OF ne] Let_def
    using assms fresh_id
    by (auto simp: table_constraints_def)
qed

lemma update_user_block_Inr:
  assumes "update_user_block user_id n e c = (Inr v, c1)"
  shows "check_name n \<and> check_email e \<and>
     \<not> (\<exists>r\<in>set (users c). r_email r = e \<and> r_id r \<noteq> user_id) \<and>
     users c1 = map (\<lambda>r. if r_id r = user_id
                           then r\<lparr>r_name := n, r_email := e,
                                  r_updated_at := CURRENT_TIMESTAMP c\<rparr>
                           else r) (users c)"
proof (cases "fits_int64 user_id")
  case False
  from update_user_block_overflow [OF False, of n e c] assms show ?thesis
    by simp
next
  case fits: True
  show ?thesis
  proof (cases "\<forall>r\<in>set (users c). r_id r \<noteq> user_id")
    case True
    from update_user_block_not_found [OF True fits, of n e] assms show ?thesis
      by simp
  next
    case False
    then have ex: "\<exists>r\<in>set (users c). r_id r = user_id"
      by blast
    let ?c2 = "received (SELECT (SELECT_id_WHERE_email_AND_id_neq e user_id))
          (received (SELECT (SELECT_id_WHERE_id user_id)) c)"
    have u: "users ?c2 = users c" "CURRENT_TIMESTAMP ?c2 = CURRENT_TIMESTAMP c"
      by (simp_all add: received_def)
    show ?thesis
    proof (cases "\<exists>r\<in>set (users c). r_email r = e \<and> r_id r \<noteq> user_id")
      case True
      with update_user_block_found [OF ex fits, of n e] assms show ?thesis
        by (simp add: Let_def)
    next
      case other: False
      with update_user_block_found [OF ex fits, of n e] assms
      have upd: "execute_update n e user_id ?c2 = (Inr v, c1)"
        by (auto simp: Let_def)
      have ex2: "\<exists>r\<in>set (users ?c2). r_id r = user_id"
        using ex by (simp add: u)
      have other2: "\<not> (\<exists>r\<in>set (users ?c2). r_email r = e \<and> r_id r \<noteq> user_id)"
        using other by (simp add: u)
      from upd other show ?thesis
        unfolding execute_update_cases [OF ex2 other2 fits]
        by (auto simp: u split: if_splits)
    qed
  qed
qed

lemma updated_rows_constraints:
  assumes "table_constraints us" and "check_name n" and "check_email e"
    and "\<not> (\<exists>r\<in>set us. r_email r = e \<and> r_id r \<noteq> user_id)"
  shows "table_constraints
     (map (\<lambda>r. if r_id r = user_id then r\<lparr>r_name := n, r_email := e, r_updated_at := t\<rparr> else r) us)"
proof -
  let ?f = "\<lambda>r. if r_id r = user_id then r\<lparr>r_name := n, r_email := e, r_updated_at := t\<rparr> else r"
  from assms(1) have d: "distinct us" "inj_on r_id (set us)" "inj_on r_email (set us)"
    by (simp_all add: table_constraints_def distinct_map)
  have ids: "map r_id (map ?f us) = map r_id us"
    by (induction us) auto
  have "inj_on (\<lambda>r. r_email (?f r)) (set us)"
  proof (rule inj_onI)
    fix x y
    assume xy: "x \<in> set us" "y \<in> set us" "r_email (?f x) = r_email (?f y)"
    show "x = y"
    proof (cases "r_id x = user_id")
      case True
      show ?thesis
      proof (cases "r_id y = user_id")
        case yes: True
        with True d(2) xy(1,2) show ?thesis
          by (auto dest: inj_onD)
      next
        case no: False
        with True xy(3) have "r_email y = e"
          by simp
        with no xy(2) assms(4) show ?thesis
          by blast
      qed
    next
      case False
      show ?thesis
      proof (cases "r_id y = user_id")
        case True
        with False xy(3) have "r_email x = e"
          by simp
        with False xy(1) assms(4) show ?thesis
          by blast
      next
        case no: False
        with False xy(3) have "r_email x = r_email y"
          by simp
        with d(3) xy(1,2) show ?thesis
          by (auto dest: inj_onD)
      qed
    qed
  qed
  with d(1) have emails: "distinct (map r_email (map ?f us))"
    by (simp add: distinct_map comp_def)
  from assms(1,2,3) have checks: "list_all (\<lambda>r. check_name (r_name r) \<and> check_email (r_email r) \<and>
                     check_password (r_password r)) (map ?f us)"
    by (auto simp: table_constraints_def list_all_iff)
  from assms(1) have "distinct (map r_id us)"
    by (simp add: table_constraints_def)
  with ids have idd: "distinct (map r_id (map ?f us))"
    by (simp only:)
  show ?thesis
    unfolding table_constraints_def by (rule conjI [OF idd conjI [OF emails checks]])
qed

lemma update_user_constraints:
  assumes "table_constraints (users conn)"
  shows "table_constraints (users (snd (update_user conn user_id name email)))"
proof (cases "user_id \<le> 0 \<or> name = [] \<or> email = []")
  case True
  with assms show ?thesis
    by (auto simp: update_user_def)
next
  case False
  let ?n = "take 50 (strip name)" and ?e = "take 254 (strip (lower email))"
  from False have g: "0 < user_id" "name \<noteq> []" "email \<noteq> []"
    by simp_all
  obtain res c where blk: "update_user_block user_id ?n ?e conn = (res, c)"
    by (cases "update_user_block user_id ?n ?e conn")
  show ?thesis
  proof (cases res)
    case (Inl err)
    with blk have "users (snd (update_user conn user_id name email)) = users conn"
      by (simp add: update_user_guarded [OF g] get_db_transaction_def raised_def rollback_def
          received_def)
    with assms show ?thesis
      by simp
  next
    case (Inr v)
    with blk have "users (snd (update_user conn user_id name email)) = users c"
      by (simp add: update_user_guarded [OF g] get_db_transaction_def raised_def commit_def
          received_def)
    moreover from update_user_block_Inr [of user_id ?n ?e conn v c] blk Inr
    have "table_constraints (users c)"
      using updated_rows_constraints [OF assms, of ?n ?e user_id "CURRENT_TIMESTAMP conn"]
      by simp
    ultimately show ?thesis
      by simp
  qed
qed

section \<open>Validation\<close>



section \<open>Credentials\<close>

text \<open>
  C7, as the claim states it, fails: when \<open>hashpw\<close> raises, \<open>hash_password\<close> raises
  \<open>ValueError\<close>, and \<open>ValueError\<close> is also what \<open>get_user_by_id\<close> raises for an
  identifier that is not positive.
\<close>

theorem hash_password_kind_counterexample:
  "hash_password hashpw_raising ''Abcdef1!'' = Inl (ValueError ''Password hashing failed'') \<and>
   is_ValueError (ValueError ''Password hashing failed'') \<and>
   fst (get_user_by_id fresh_connection 0) =
     Inl (ValueError ''User ID must be a positive integer'') \<and>
   is_ValueError (ValueError ''User ID must be a positive integer'')"
  by (simp add: hash_password_def hashpw_raising_def get_user_by_id_def)

text \<open>
  C7, amended. Whenever \<open>hashpw\<close> raises, \<open>hash_password\<close> raises
  \<open>ValueError\<close> with the text \<open>Password hashing failed\<close>, whatever was raised inside;
  this is the exception class that the repository raises for an invalid argument, so
  only the text tells the two apart. When \<open>hashpw\<close> returns, its hash is the result.
\<close>

theorem hash_password_failure_is_ValueError:
  "(hashpw password = Inl e \<longrightarrow>
      hash_password hashpw password = Inl (ValueError ''Password hashing failed'')) \<and>
   (hashpw password = Inr hashed \<longrightarrow> hash_password hashpw password = Inr hashed) \<and>
   (user_id \<le> 0 \<longrightarrow>
      get_user_by_id conn user_id =
        (Inl (ValueError ''User ID must be a positive integer''), conn))"
  by (simp add: hash_password_def get_user_by_id_def)

theorem hash_password_failure_is_ValueError_witness:
  "hashpw_raising ''Abcdef1!'' = Inl (Exception ''bcrypt backend failure'') \<and>
   hash_password hashpw_raising ''Abcdef1!'' = Inl (ValueError ''Password hashing failed'') \<and>
   (0::int) \<le> 0 \<and>
   get_user_by_id fresh_connection 0 =
     (Inl (ValueError ''User ID must be a positive integer''), fresh_connection)"
  using hash_password_failure_is_ValueError
    [of hashpw_raising "''Abcdef1!''" "Exception ''bcrypt backend failure''" _ 0 fresh_connection]
  by (simp add: hashpw_raising_def)

section \<open>Guards of the repository\<close>

text \<open>
  C10. For an argument that is the empty string or is not a string, \<open>get_user_by_email\<close>
  raises \<open>ValueError\<close> and the connection has received no statement: it is returned as
  it was.
\<close>

theorem get_user_by_email_guard:
  "email = PStr [] \<or> \<not> isinstance_str email \<Longrightarrow>
   get_user_by_email conn email include_password =
     (Inl (ValueError ''Email must be a non-empty string''), conn)"
  by (cases email) (auto simp: get_user_by_email_def)

theorem get_user_by_email_guard_witness:
  "get_user_by_email fresh_connection (PStr []) True =
     (Inl (ValueError ''Email must be a non-empty string''), fresh_connection) \<and>
   \<not> isinstance_str (PInt 7) \<and>
   get_user_by_email fresh_connection (PInt 7) False =
     (Inl (ValueError ''Email must be a non-empty string''), fresh_connection)"
  using get_user_by_email_guard [of "PStr []" fresh_connection True]
    get_user_by_email_guard [of "PInt 7" fresh_connection False]
  by simp

section \<open>Order of the validation rules\<close>

text \<open>
  C5, as the claim states it, fails. The presence rule of the specification rejects an
  email of whitespace only, and presence comes before name shape; \<open>validate_user_data\<close>
  tests the email for whitespace only after the shape of the name. For the name \<open>A\<close>
  and an email of three spaces the first failing rule in the order of the specification
  is presence, with the message about the email, and the function returns the message
  about the length of the name.
\<close>

theorem validate_user_data_order_counterexample:
  "validate_user_data default_config arabic_indic ''A'' ''   '' None =
     (False, Some ''Name must be at least 2 characters long'') \<and>
   first_failing (presence_rules ''A'' ''   '') =
     (False, Some ''Email cannot be empty or only whitespace'') \<and>
   first_failing (specified_order default_config arabic_indic ''A'' ''   '' None) =
     (False, Some ''Email cannot be empty or only whitespace'')"
  by code_simp

text \<open>
  C5, amended. \<open>validate_user_data\<close> is the first failing rule of the list: name and
  email not missing or empty; the name not whitespace only, then its shape; the email not
  whitespace only, then its shape; the password policy. It returns \<open>False\<close> with the
  message of the first rule of this list that does not hold, and \<open>True\<close> with no
  message when every rule holds. Whenever the email is not whitespace only, this is also
  the first failing rule in the order presence, name shape, email shape, password policy.
  The function depends on its arguments, the configured minimum length and the decimal
  digits of Unicode only: it takes no connection and returns none.
\<close>

theorem validate_user_data_first_failing:
  "validate_user_data cfg nd name email password =
     first_failing (field_by_field_order cfg nd name email password) \<and>
   (strip email \<noteq> [] \<longrightarrow>
      validate_user_data cfg nd name email password =
        first_failing (specified_order cfg nd name email password))"
  by (simp add: validate_user_data_def validate_password_def field_by_field_order_def
      specified_order_def presence_rules_def required_rule_def name_blank_rule_def
      email_blank_rule_def name_shape_rules_def email_shape_rules_def password_rules_def
      lower_def Let_def not_less not_le split: option.splits)

theorem validate_user_data_first_failing_witness:
  "validate_user_data default_config arabic_indic ''Anna Lee'' '' A@B.com ''
      (Some (codepoints ''Abcdef1'')) =
     (False, Some ''Password must be at least 8 characters long'') \<and>
   validate_user_data default_config arabic_indic ''Anna Lee'' '' A@B.com ''
      (Some (codepoints ''Abcdef1!'')) = (True, None) \<and>
   validate_user_data default_config arabic_indic ''A'' ''nobody'' (Some (codepoints ''x'')) =
     (False, Some ''Name must be at least 2 characters long'')"
proof -
  have ne: "strip '' A@B.com '' \<noteq> []" "strip ''nobody'' \<noteq> []"
    by code_simp+
  have a: "first_failing (specified_order default_config arabic_indic ''Anna Lee'' '' A@B.com ''
          (Some (codepoints ''Abcdef1''))) =
        (False, Some ''Password must be at least 8 characters long'')"
    by code_simp
  have b: "first_failing (specified_order default_config arabic_indic ''Anna Lee'' '' A@B.com ''
          (Some (codepoints ''Abcdef1!''))) = (True, None)"
    by code_simp
  have c: "first_failing (specified_order default_config arabic_indic ''A'' ''nobody''
          (Some (codepoints ''x''))) =
        (False, Some ''Name must be at least 2 characters long'')"
    by code_simp
  have "validate_user_data default_config arabic_indic ''Anna Lee'' '' A@B.com ''
      (Some (codepoints ''Abcdef1'')) =
     (False, Some ''Password must be at least 8 characters long'')"
    using validate_user_data_first_failing [of default_config arabic_indic "''Anna Lee''"
        "'' A@B.com ''" "Some (codepoints ''Abcdef1'')"] ne(1) a
    by metis
  moreover have "validate_user_data default_config arabic_indic ''Anna Lee'' '' A@B.com ''
      (Some (codepoints ''Abcdef1!'')) = (True, None)"
    using validate_user_data_first_failing [of default_config arabic_indic "''Anna Lee''"
        "'' A@B.com ''" "Some (codepoints ''Abcdef1!'')"] ne(1) b
    by metis
  moreover have "validate_user_data default_config arabic_indic ''A'' ''nobody''
      (Some (codepoints ''x'')) = (False, Some ''Name must be at least 2 characters long'')"
    using validate_user_data_first_failing [of default_config arabic_indic "''A''" "''nobody''"
        "Some (codepoints ''x'')"] ne(2) c
    by metis
  ultimately show ?thesis
    by (intro conjI)
qed

section \<open>Updating a user\<close>




section \<open>Creating a user\<close>




section \<open>Looking a user up by email\<close>

text \<open>
  C4. The claim holds of every email but the long ones, where the code misses it:
  \<open>create_user\<close> cuts the normalized email to 254 characters, the limit that
  \<open>validate_user_data\<close> and \<open>update_user\<close> use as well, and \<open>get_user_by_email\<close>
  cuts it to 255, the default of \<open>sanitize_input\<close>. After a user is created with an
  address of 256 characters, fetching with the lowercase form of that address returns
  no user.
\<close>

theorem get_user_by_email_misses_long_email:
  "fst (create_user fresh_connection ''Anna Lee'' long_email (replicate 60 (CHR ''x''))) = Inr 1 \<and>
   fst (get_user_by_email
          (snd (create_user fresh_connection ''Anna Lee'' long_email (replicate 60 (CHR ''x''))))
          (PStr (lower long_email)) False) = Inr None"
proof -
  have ne: "''Anna Lee'' \<noteq> []" "long_email \<noteq> []" "replicate 60 (CHR ''x'') \<noteq> []"
    by (simp_all add: long_email_def)
  have chk: "check_name (take 50 (strip ''Anna Lee''))" "check_password (replicate 60 (CHR ''x''))"
    by code_simp+
  have chk_email: "check_email (replicate 250 (CHR ''a'') @ ''@b.c'')"
    by (rule check_email_hd) simp_all
  have nxt: "next_rowid fresh_connection = 1" "users fresh_connection = []"
    by code_simp+
  have made: "create_user fresh_connection ''Anna Lee'' long_email (replicate 60 (CHR ''x'')) =
      (Inr 1,
       fresh_connection\<lparr>users := 
                   [\<lparr>r_id = 1, r_name = take 50 (strip ''Anna Lee''),
                     r_email = replicate 250 (CHR ''a'') @ ''@b.c'', r_password = replicate 60 (CHR ''x''),
                     r_created_at = CURRENT_TIMESTAMP fresh_connection,
                     r_updated_at = CURRENT_TIMESTAMP fresh_connection\<rparr>],
                 sqlite_sequence := 1,
                 statements := statements fresh_connection @
                   [INSERT (take 50 (strip ''Anna Lee'')) (replicate 250 (CHR ''a'') @ ''@b.c'') (replicate 60 (CHR ''x'')),
                    COMMIT]\<rparr>)"
    using chk chk_email nxt
    by (simp only: create_user_cases [OF ne] Let_def stored_long_email) simp
  have "lower long_email \<noteq> []"
    by (simp add: lower_long_email)
  then show ?thesis
    by (simp add: made get_user_by_email_str looked_up_long_email fetchone_def)
qed

theorem get_user_by_email_misses_long_email_witness:
  "length long_email = 256 \<and>
   fst (get_user_by_email
          (snd (create_user fresh_connection ''Anna Lee'' long_email (replicate 60 (CHR ''x''))))
          (PStr (lower long_email)) False) = Inr None"
  using get_user_by_email_misses_long_email by (simp add: long_email_def)

text \<open>
  Within the limit the lookup finds the user. After \<open>create_user\<close> has succeeded with
  an email whose trimmed form has at most 254 characters, \<open>get_user_by_email\<close> with
  any string that has the same trimmed lowercase form returns the created user: the
  statement it sends carries the trimmed, lowercased email, and the row found is the one
  inserted, under the id that \<open>create_user\<close> returned.
\<close>

theorem get_user_by_email_after_create:
  assumes "create_user conn name email password_hash = (Inr user_id, conn1)"
    and "length (strip (lower email)) \<le> 254"
    and "strip (lower e) = strip (lower email)"
  shows "get_user_by_email conn1 (PStr e) False =
     (Inr (Some (columns_public
        \<lparr>r_id = user_id, r_name = take 50 (strip name), r_email = strip (lower email),
         r_password = password_hash, r_created_at = CURRENT_TIMESTAMP conn,
         r_updated_at = CURRENT_TIMESTAMP conn\<rparr>)),
      conn1\<lparr>statements := statements conn1 @
        [SELECT (SELECT_public_WHERE_email (strip (lower email))), COMMIT]\<rparr>)"
proof -
  let ?email1 = "strip (lower email)"
  let ?new = "\<lparr>r_id = user_id, r_name = take 50 (strip name), r_email = ?email1,
         r_password = password_hash, r_created_at = CURRENT_TIMESTAMP conn,
         r_updated_at = CURRENT_TIMESTAMP conn\<rparr>"
  from assms(2) have cut: "take 254 ?email1 = ?email1" "take 255 ?email1 = ?email1"
    by simp_all
  from create_user_Inr [OF assms(1)] cut
  have us: "users conn1 = users conn @ [?new]"
    and fresh: "\<forall>r\<in>set (users conn). r_email r \<noteq> ?email1"
    and chk: "check_email ?email1"
    by simp_all
  from chk have "?email1 \<noteq> []"
    by (rule check_email_nonempty)
  with assms(3) have "e \<noteq> []"
    by (auto simp: strip_Nil lower_def)
  have "find (\<lambda>r. r_email r = ?email1) (users conn1) = Some ?new"
    unfolding us using fresh by (intro find_snoc_new) simp_all
  then show ?thesis
    using \<open>e \<noteq> []\<close> assms(3) cut
    by (simp add: get_user_by_email_str fetchone_map_filter)
qed

theorem get_user_by_email_after_create_witness:
  "fst (create_user fresh_connection ''Anna Lee'' ''A@B.com'' (replicate 60 (CHR ''x''))) = Inr 1 \<and>
   fst (get_user_by_email
          (snd (create_user fresh_connection ''Anna Lee'' ''A@B.com'' (replicate 60 (CHR ''x''))))
          (PStr ''a@b.com'') False) =
     Inr (Some [(''id'', PInt 1), (''name'', PStr ''Anna Lee''), (''email'', PStr ''a@b.com''),
                (''created_at'', PStr ''2024-01-01 00:00:00''),
                (''updated_at'', PStr ''2024-01-01 00:00:00'')])"
proof -
  have made: "fst (create_user fresh_connection ''Anna Lee'' ''A@B.com'' (replicate 60 (CHR ''x''))) = Inr 1"
    by code_simp
  then have c: "create_user fresh_connection ''Anna Lee'' ''A@B.com'' (replicate 60 (CHR ''x'')) =
      (Inr 1, snd (create_user fresh_connection ''Anna Lee'' ''A@B.com'' (replicate 60 (CHR ''x''))))"
    by (simp add: prod_eq_iff)
  have len: "length (strip (lower ''A@B.com'')) \<le> 254"
    by code_simp
  have same: "strip (lower ''a@b.com'') = strip (lower ''A@B.com'')"
    by code_simp
  have vals: "take 50 (strip ''Anna Lee'') = ''Anna Lee''" "strip (lower ''A@B.com'') = ''a@b.com''"
     "CURRENT_TIMESTAMP fresh_connection = ''2024-01-01 00:00:00''"
    by code_simp+
  from get_user_by_email_after_create [OF c len same] vals made show ?thesis
    by (simp add: columns_public_def)
qed

section \<open>Login\<close>



section \<open>Conflicts reported by \<open>create_user\<close>\<close>

text \<open>
  C8. \<open>create_user\<close> maps an \<open>IntegrityError\<close> by its text alone: when the text,
  lowercased, contains \<open>email\<close> it raises \<open>UserAlreadyExistsError\<close> with
  \<open>Email already exists\<close>, and otherwise the generic failure for a data constraint.
  So on a table with no row at all, an email of spaces only, which fails the \<open>CHECK\<close>
  of the column \<open>email\<close>, is reported as an email that already exists.
\<close>

theorem create_user_conflict_by_message:
  "create_user_except (IntegrityError m) =
     (if sublist ''email'' (lower m) then UserAlreadyExistsError ''Email already exists''
      else Exception ''Failed to create user due to data constraint'') \<and>
   (name \<noteq> [] \<and> email \<noteq> [] \<and> password_hash \<noteq> [] \<and>
    fst (execute_insert (take 50 (strip name)) (take 254 (strip (lower email))) password_hash conn) =
      Inl (IntegrityError m) \<longrightarrow>
      fst (create_user conn name email password_hash) =
        Inl (if sublist ''email'' (lower m) then UserAlreadyExistsError ''Email already exists''
             else Exception ''Failed to create user due to data constraint'')) \<and>
   users fresh_connection = [] \<and>
   fst (execute_insert ''Anna Lee'' [] (replicate 60 (CHR ''x'')) fresh_connection) =
     Inl (IntegrityError ''CHECK constraint failed: length(trim(email)) > 0'') \<and>
   fst (create_user fresh_connection ''Anna Lee'' ''   '' (replicate 60 (CHR ''x''))) =
     Inl (UserAlreadyExistsError ''Email already exists'')"
proof (intro conjI impI)
  show h: "create_user_except (IntegrityError m) =
     (if sublist ''email'' (lower m) then UserAlreadyExistsError ''Email already exists''
      else Exception ''Failed to create user due to data constraint'')"
    by (simp add: create_user_except_def str_contains_sublist)
  assume a: "name \<noteq> [] \<and> email \<noteq> [] \<and> password_hash \<noteq> [] \<and>
    fst (execute_insert (take 50 (strip name)) (take 254 (strip (lower email))) password_hash conn) =
      Inl (IntegrityError m)"
  then obtain c where "execute_insert (take 50 (strip name)) (take 254 (strip (lower email)))
      password_hash conn = (Inl (IntegrityError m), c)"
    by (metis prod.collapse)
  with a have "fst (create_user conn name email password_hash) =
      Inl (create_user_except (IntegrityError m))"
    by (simp add: create_user_def sanitize_input_def Let_def get_db_transaction_def raised_def)
  with h show "fst (create_user conn name email password_hash) =
        Inl (if sublist ''email'' (lower m) then UserAlreadyExistsError ''Email already exists''
             else Exception ''Failed to create user due to data constraint'')"
    by simp
next
  show "users fresh_connection = []"
    by (simp add: fresh_connection_def)
  show "fst (execute_insert ''Anna Lee'' [] (replicate 60 (CHR ''x'')) fresh_connection) =
     Inl (IntegrityError ''CHECK constraint failed: length(trim(email)) > 0'')"
    by code_simp
  show "fst (create_user fresh_connection ''Anna Lee'' ''   '' (replicate 60 (CHR ''x''))) =
     Inl (UserAlreadyExistsError ''Email already exists'')"
    by code_simp
qed

theorem create_user_conflict_by_message_witness:
  "fst (create_user two_users ''Bobby Ray'' ''BOB@example.com'' (replicate 60 (CHR ''x''))) =
     Inl (UserAlreadyExistsError ''Email already exists'') \<and>
   fst (create_user two_users ''Cy Young'' ''cy@example.com'' ''$2b$12$short'') =
     Inl (Exception ''Failed to create user due to data constraint'')"
proof -
  have dup: "''Bobby Ray'' \<noteq> [] \<and> ''BOB@example.com'' \<noteq> [] \<and> replicate 60 (CHR ''x'') \<noteq> [] \<and>
      fst (execute_insert (take 50 (strip ''Bobby Ray'')) (take 254 (strip (lower ''BOB@example.com'')))
             (replicate 60 (CHR ''x'')) two_users) =
        Inl (IntegrityError ''UNIQUE constraint failed: users.email'')"
    by code_simp
  have short: "''Cy Young'' \<noteq> [] \<and> ''cy@example.com'' \<noteq> [] \<and> ''$2b$12$short'' \<noteq> [] \<and>
      fst (execute_insert (take 50 (strip ''Cy Young'')) (take 254 (strip (lower ''cy@example.com'')))
             ''$2b$12$short'' two_users) =
        Inl (IntegrityError ''CHECK constraint failed: length(password) >= 60'')"
    by code_simp
  have m1: "sublist ''email'' (lower ''UNIQUE constraint failed: users.email'')"
    by code_simp
  have m2: "\<not> sublist ''email'' (lower ''CHECK constraint failed: length(password) >= 60'')"
    by code_simp
  have "fst (create_user two_users ''Bobby Ray'' ''BOB@example.com'' (replicate 60 (CHR ''x''))) =
     Inl (UserAlreadyExistsError ''Email already exists'')"
    using create_user_conflict_by_message
      [of "''UNIQUE constraint failed: users.email''" "''Bobby Ray''" "''BOB@example.com''"
        "replicate 60 (CHR ''x'')" two_users] dup m1
    by simp
  moreover have "fst (create_user two_users ''Cy Young'' ''cy@example.com'' ''$2b$12$short'') =
     Inl (Exception ''Failed to create user due to data constraint'')"
    using create_user_conflict_by_message
      [of "''CHECK constraint failed: length(password) >= 60''" "''Cy Young''" "''cy@example.com''"
        "''$2b$12$short''" two_users] short m2
    by simp
  ultimately show ?thesis
    by simp
qed

section \<open>Searching by name\<close>

text \<open>
  C9. \<open>search_users_by_name\<close> sends the sanitized pattern between two \<open>%\<close> signs as
  the operand of \<open>LIKE\<close>, with nothing escaped, so \<open>%\<close> and \<open>_\<close> in the pattern are
  wildcards: on the table with Anna Lee and Bob Ray, the pattern \<open>n%L\<close> finds Anna Lee
  and the pattern \<open>B_b\<close> finds Bob Ray, and neither name contains its pattern.
\<close>

theorem search_users_by_name_wildcards:
  "(s \<noteq> [] \<longrightarrow>
      search_users_by_name conn (PStr s) =
        (Inr (map columns_public (order_by_name
                (filter (\<lambda>r. sql_like (''%'' @ take 50 (strip s) @ ''%'') (r_name r))
                   (users conn)))),
         conn\<lparr>statements := statements conn @
            [SELECT (SELECT_public_WHERE_name_LIKE (''%'' @ take 50 (strip s) @ ''%'')),
             COMMIT]\<rparr>)) \<and>
   fst (search_users_by_name two_users (PStr ''n%L'')) = Inr [columns_public (users two_users ! 0)] \<and>
   r_name (users two_users ! 0) = ''Anna Lee'' \<and> \<not> sublist ''n%L'' ''Anna Lee'' \<and>
   fst (search_users_by_name two_users (PStr ''B_b'')) = Inr [columns_public (users two_users ! 1)] \<and>
   r_name (users two_users ! 1) = ''Bob Ray'' \<and> \<not> sublist ''B_b'' ''Bob Ray''"
proof (intro conjI impI)
  assume "s \<noteq> []"
  then show "search_users_by_name conn (PStr s) =
        (Inr (map columns_public (order_by_name
                (filter (\<lambda>r. sql_like (''%'' @ take 50 (strip s) @ ''%'') (r_name r))
                   (users conn)))),
         conn\<lparr>statements := statements conn @
            [SELECT (SELECT_public_WHERE_name_LIKE (''%'' @ take 50 (strip s) @ ''%'')),
             COMMIT]\<rparr>)"
    by (rule search_users_by_name_str)
next
  show "fst (search_users_by_name two_users (PStr ''n%L'')) = Inr [columns_public (users two_users ! 0)]"
    by code_simp
  show "r_name (users two_users ! 0) = ''Anna Lee''"
    by code_simp
  show "\<not> sublist ''n%L'' ''Anna Lee''"
    by code_simp
  show "fst (search_users_by_name two_users (PStr ''B_b'')) = Inr [columns_public (users two_users ! 1)]"
    by code_simp
  show "r_name (users two_users ! 1) = ''Bob Ray''"
    by code_simp
  show "\<not> sublist ''B_b'' ''Bob Ray''"
    by code_simp
qed

theorem search_users_by_name_wildcards_witness:
  "statements (snd (search_users_by_name two_users (PStr ''n%L''))) =
     [SELECT (SELECT_public_WHERE_name_LIKE ''%n%L%''), COMMIT] \<and>
   sql_like ''%n%L%'' ''Anna Lee'' \<and> \<not> sql_like ''%n%L%'' ''Bob Ray''"
proof -
  have "''n%L'' \<noteq> []"
    by simp
  with search_users_by_name_wildcards [of "''n%L''" two_users]
  have "search_users_by_name two_users (PStr ''n%L'') =
        (Inr (map columns_public (order_by_name
                (filter (\<lambda>r. sql_like (''%'' @ take 50 (strip ''n%L'') @ ''%'') (r_name r))
                   (users two_users)))),
         two_users\<lparr>statements := statements two_users @
            [SELECT (SELECT_public_WHERE_name_LIKE (''%'' @ take 50 (strip ''n%L'') @ ''%'')),
             COMMIT]\<rparr>)"
    by blast
  moreover have "take 50 (strip ''n%L'') = ''n%L''" "statements two_users = []"
    by code_simp+
  moreover have "sql_like ''%n%L%'' ''Anna Lee''" "\<not> sql_like ''%n%L%'' ''Bob Ray''"
    by code_simp+
  ultimately show ?thesis
    by simp
qed

end
